theory Spec2Isabelle
  imports Main
begin

section \<open>Python values, exceptions and builtins used by main.py\<close>

text \<open>
  Exceptions are values. The four \<open>requests\<close> classes are kept apart because the
  handlers of main.py tell them apart: \<open>Timeout\<close>, \<open>ConnectionError\<close> and
  \<open>HTTPError\<close> are subclasses of \<open>RequestException\<close>; the constructor
  \<open>RequestException\<close> stands for any other member of that class. The string is
  \<open>str(e)\<close>, which fetch_stocks interpolates into a report line.
\<close>

datatype exn =
    Timeout string
  | ConnectionError string
  | HTTPError string
  | RequestException string
  | KeyError
  | ValueError
  | IndexError
  | TypeError
  | AttributeError
  | OverflowError

fun is_Timeout :: "exn \<Rightarrow> bool" where
  "is_Timeout (Timeout m) = True"
| "is_Timeout e = False"

fun is_RequestException :: "exn \<Rightarrow> bool" where
  "is_RequestException (Timeout m) = True"
| "is_RequestException (ConnectionError m) = True"
| "is_RequestException (HTTPError m) = True"
| "is_RequestException (RequestException m) = True"
| "is_RequestException e = False"

fun exn_str :: "exn \<Rightarrow> string" where
  "exn_str (Timeout m) = m"
| "exn_str (ConnectionError m) = m"
| "exn_str (HTTPError m) = m"
| "exn_str (RequestException m) = m"
| "exn_str e = []"

text \<open>
  The value \<open>response.json()\<close> returns: None, bool, int, float, str, list, dict.
  The float type is a parameter \<open>'f\<close>. A dict is an association list in insertion
  order, read with \<open>map_of\<close>. Strings are byte lists holding UTF-8.
\<close>

datatype 'f json =
    JNull
  | JBool bool
  | JInt int
  | JFloat 'f
  | JStr string
  | JArr "'f json list"
  | JObj "(string \<times> 'f json) list"

text \<open>
  The operations of Python's float that main.py uses: \<open>float(s)\<close> on a str (None is
  ValueError), the conversion of an int (None is OverflowError), \<open>format(x, '.Nf')\<close>,
  \<open>x > 0\<close> and \<open>bool(x)\<close>.
\<close>

record 'f float_ops =
  float_of_str :: "string \<Rightarrow> 'f option"
  float_of_int :: "int \<Rightarrow> 'f option"
  format_f :: "nat \<Rightarrow> 'f \<Rightarrow> string"
  float_gt0 :: "'f \<Rightarrow> bool"
  float_bool :: "'f \<Rightarrow> bool"

text \<open>\<open>needle in hay\<close> on two str values: \<open>needle\<close> occurs as a contiguous run.\<close>

fun str_contains :: "string \<Rightarrow> string \<Rightarrow> bool" where
  "str_contains needle [] = (needle = [])"
| "str_contains needle (c # cs) =
     (if take (length needle) (c # cs) = needle then True else str_contains needle cs)"

text \<open>\<open>sep.join(xs)\<close>.\<close>

fun join :: "string \<Rightarrow> string list \<Rightarrow> string" where
  "join sep [] = []"
| "join sep [x] = x"
| "join sep (x # y # ys) = x @ sep @ join sep (y # ys)"

text \<open>The code points of a str: a lead byte with the continuation bytes after it.\<close>

definition is_cont :: "char \<Rightarrow> bool" where
  "is_cont c = (128 \<le> (of_char c :: nat) \<and> (of_char c :: nat) < 192)"

function utf8_chars :: "string \<Rightarrow> string list" where
  "utf8_chars [] = []"
| "utf8_chars (c # cs) = (c # takeWhile is_cont cs) # utf8_chars (dropWhile is_cont cs)"
  by pat_completeness auto
termination
  by (relation "measure length") (auto simp: length_dropWhile_le less_Suc_eq_le)

text \<open>\<open>v[key]\<close> with a str key.\<close>

fun subscript :: "'f json \<Rightarrow> string \<Rightarrow> exn + 'f json" where
  "subscript (JObj kvs) key = (case map_of kvs key of None \<Rightarrow> Inl KeyError | Some v \<Rightarrow> Inr v)"
| "subscript v key = Inl TypeError"

text \<open>
  \<open>v[0]\<close>: the first element of a list or str (IndexError when empty); on a dict the
  key \<open>0\<close>, which a dict decoded from JSON never has, since its keys are str.
\<close>

fun subscript0 :: "'f json \<Rightarrow> exn + 'f json" where
  "subscript0 (JArr []) = Inl IndexError"
| "subscript0 (JArr (x # xs)) = Inr x"
| "subscript0 (JStr s) = (case utf8_chars s of [] \<Rightarrow> Inl IndexError | c # cs \<Rightarrow> Inr (JStr c))"
| "subscript0 (JObj kvs) = Inl KeyError"
| "subscript0 v = Inl TypeError"

text \<open>\<open>for x in v\<close>: the elements of a list, the keys of a dict, the code points of a str.\<close>

fun py_iter :: "'f json \<Rightarrow> exn + 'f json list" where
  "py_iter (JArr xs) = Inr xs"
| "py_iter (JObj kvs) = Inr (map (\<lambda>kv. JStr (fst kv)) kvs)"
| "py_iter (JStr s) = Inr (map JStr (utf8_chars s))"
| "py_iter v = Inl TypeError"

text \<open>\<open>s in v\<close> for a str \<open>s\<close>.\<close>

fun str_in :: "string \<Rightarrow> 'f json \<Rightarrow> exn + bool" where
  "str_in s (JObj kvs) = Inr (s \<in> set (map fst kvs))"
| "str_in s (JArr xs) = Inr (JStr s \<in> set xs)"
| "str_in s (JStr t) = Inr (str_contains s t)"
| "str_in s v = Inl TypeError"

text \<open>\<open>v.get(key)\<close>: only a dict has the method.\<close>

fun dict_get :: "'f json \<Rightarrow> string \<Rightarrow> exn + 'f json" where
  "dict_get (JObj kvs) key = (case map_of kvs key of None \<Rightarrow> Inr JNull | Some v \<Rightarrow> Inr v)"
| "dict_get v key = Inl AttributeError"

text \<open>\<open>bool(v)\<close>, as \<open>not v\<close> tests it.\<close>

fun truthy :: "'f float_ops \<Rightarrow> 'f json \<Rightarrow> bool" where
  "truthy ops JNull = False"
| "truthy ops (JBool b) = b"
| "truthy ops (JInt i) = (i \<noteq> 0)"
| "truthy ops (JFloat x) = float_bool ops x"
| "truthy ops (JStr s) = (s \<noteq> [])"
| "truthy ops (JArr xs) = (xs \<noteq> [])"
| "truthy ops (JObj kvs) = (kvs \<noteq> [])"

definition int_to_float :: "'f float_ops \<Rightarrow> int \<Rightarrow> exn + 'f" where
  "int_to_float ops i = (case float_of_int ops i of None \<Rightarrow> Inl OverflowError | Some x \<Rightarrow> Inr x)"

text \<open>\<open>float(v)\<close>.\<close>

fun py_float :: "'f float_ops \<Rightarrow> 'f json \<Rightarrow> exn + 'f" where
  "py_float ops (JStr s) = (case float_of_str ops s of None \<Rightarrow> Inl ValueError | Some x \<Rightarrow> Inr x)"
| "py_float ops (JFloat x) = Inr x"
| "py_float ops (JInt i) = int_to_float ops i"
| "py_float ops (JBool b) = int_to_float ops (if b then 1 else 0)"
| "py_float ops v = Inl TypeError"

text \<open>\<open>v.replace('%', '')\<close>: only a str has the method.\<close>

fun replace_percent :: "'f json \<Rightarrow> exn + 'f json" where
  "replace_percent (JStr s) = Inr (JStr (filter (\<lambda>c. c \<noteq> CHR ''%'') s))"
| "replace_percent v = Inl AttributeError"

text \<open>
  \<open>format(v, '.Nf')\<close>, the \<open>{v:.Nf}\<close> of an f-string: an int or bool is converted to
  float, a str refuses the format code (ValueError), None, a list and a dict refuse
  any format string (TypeError).
\<close>

fun format_fixed :: "'f float_ops \<Rightarrow> nat \<Rightarrow> 'f json \<Rightarrow> exn + string" where
  "format_fixed ops d (JFloat x) = Inr (format_f ops d x)"
| "format_fixed ops d (JInt i) =
     (case int_to_float ops i of Inl e \<Rightarrow> Inl e | Inr x \<Rightarrow> Inr (format_f ops d x))"
| "format_fixed ops d (JBool b) =
     (case int_to_float ops (if b then 1 else 0) of Inl e \<Rightarrow> Inl e
      | Inr x \<Rightarrow> Inr (format_f ops d x))"
| "format_fixed ops d (JStr s) = Inl ValueError"
| "format_fixed ops d v = Inl TypeError"

text \<open>
  \<open>str(v)\<close>, the \<open>{v}\<close> of an f-string: a str is itself; for any other value it is
  its repr, a parameter.
\<close>

fun py_str :: "('f json \<Rightarrow> string) \<Rightarrow> 'f json \<Rightarrow> string" where
  "py_str repr (JStr s) = s"
| "py_str repr v = repr v"

section \<open>The HTTP layer\<close>

text \<open>
  What main.py reads of a \<open>requests.Response\<close>: the status (with the message the
  library puts into the HTTPError of \<open>raise_for_status\<close>), the outcome of
  \<open>json()\<close> and \<open>text\<close>. \<open>requests.get(url, timeout=t)\<close> is a parameter of
  every fetcher: it raises or returns a response.
\<close>

record 'f response =
  status_code :: nat
  status_msg :: string
  json_body :: "exn + 'f json"
  text_body :: string

type_synonym 'f http = "string \<Rightarrow> nat \<Rightarrow> exn + 'f response"

definition raise_for_status :: "'f response \<Rightarrow> exn + unit" where
  "raise_for_status r =
     (if 400 \<le> status_code r \<and> status_code r < 600 then Inl (HTTPError (status_msg r))
      else Inr ())"

text \<open>The three calls every JSON fetcher starts with: get, raise_for_status, json.\<close>

definition get_json :: "'f http \<Rightarrow> string \<Rightarrow> exn + 'f json" where
  "get_json http api_url =
     (case http api_url 15 of
        Inl e \<Rightarrow> Inl e
      | Inr r \<Rightarrow> (case raise_for_status r of Inl e \<Rightarrow> Inl e | Inr u \<Rightarrow> json_body r))"

section \<open>The fetchers\<close>

text \<open>Sequencing of statements that may raise: the first exception ends the block.\<close>

fun then_do :: "exn + 'a \<Rightarrow> ('a \<Rightarrow> exn + 'b) \<Rightarrow> exn + 'b" where
  "then_do (Inl e) f = Inl e"
| "then_do (Inr x) f = f x"

subsection \<open>fetch_weather\<close>

definition weather_url :: "string \<Rightarrow> string \<Rightarrow> string" where
  "weather_url location api_key =
     ''https://api.openweathermap.org/data/2.5/weather?q='' @ location @ ''&appid='' @ api_key
       @ ''&units=imperial''"

text \<open>The bytes between \<open>{temp:.0f}\<close> and \<open>F with\<close> in the literal of main.py.\<close>

definition degree_sign :: string where
  "degree_sign = [CHR 0xC2, CHR 0xAC, CHR 0xE2, CHR 0x88, CHR 0x9E]"

text \<open>The statements of the try block after \<open>data = response.json()\<close>.\<close>

definition weather_line :: "'f float_ops \<Rightarrow> ('f json \<Rightarrow> string) \<Rightarrow> 'f json \<Rightarrow> exn + string" where
  "weather_line ops repr data =
     then_do (subscript data ''main'') (\<lambda>main.
     then_do (subscript main ''temp'') (\<lambda>temp.
     then_do (subscript data ''weather'') (\<lambda>weather.
     then_do (subscript0 weather) (\<lambda>weather0.
     then_do (subscript weather0 ''description'') (\<lambda>description.
     then_do (subscript data ''name'') (\<lambda>city.
     then_do (subscript data ''sys'') (\<lambda>sys.
     then_do (subscript sys ''country'') (\<lambda>country.
     then_do (format_fixed ops 0 temp) (\<lambda>temp0.
       Inr (py_str repr city @ '', '' @ py_str repr country @ '': '' @ temp0 @ degree_sign
            @ ''F with '' @ py_str repr description @ ''.''))))))))))"

definition fetch_weather ::
  "'f float_ops \<Rightarrow> ('f json \<Rightarrow> string) \<Rightarrow> 'f http \<Rightarrow> string \<Rightarrow> string \<Rightarrow> exn + string" where
  "fetch_weather ops repr http location api_key =
     (case then_do (get_json http (weather_url location api_key)) (weather_line ops repr) of
        Inr report \<Rightarrow> Inr report
      | Inl e \<Rightarrow>
          if is_RequestException e
          then Inr (''Weather data for '' @ location @ '' is temporarily unavailable.'')
          else if e = KeyError
          then Inr ''Error: Invalid data format received from weather API.''
          else Inl e)"

subsection \<open>fetch_news\<close>

definition news_url :: "string \<Rightarrow> string \<Rightarrow> string" where
  "news_url topic api_key =
     ''https://newsapi.org/v2/top-headlines?q='' @ topic @ ''&apiKey='' @ api_key
       @ ''&pageSize=3''"

fun news_loop :: "('f json \<Rightarrow> string) \<Rightarrow> 'f json list \<Rightarrow> string list \<Rightarrow> exn + string list" where
  "news_loop repr [] headlines = Inr headlines"
| "news_loop repr (article # rest) headlines =
     (case subscript article ''title'' of
        Inl e \<Rightarrow> Inl e
      | Inr title \<Rightarrow> news_loop repr rest (headlines @ [''- '' @ py_str repr title]))"

definition news_lines :: "('f json \<Rightarrow> string) \<Rightarrow> 'f json \<Rightarrow> exn + string" where
  "news_lines repr data =
     then_do (subscript data ''articles'') (\<lambda>articles.
     then_do (py_iter articles) (\<lambda>items.
     then_do (news_loop repr items []) (\<lambda>headlines.
       Inr (join ''\<newline>'' headlines))))"

definition fetch_news ::
  "('f json \<Rightarrow> string) \<Rightarrow> 'f http \<Rightarrow> string \<Rightarrow> string \<Rightarrow> exn + string" where
  "fetch_news repr http topic api_key =
     (case then_do (get_json http (news_url topic api_key)) (news_lines repr) of
        Inr report \<Rightarrow> Inr report
      | Inl e \<Rightarrow>
          if is_RequestException e
          then Inr ''Top news headlines are temporarily unavailable.''
          else if e = KeyError
          then Inr ''Error: Invalid data format received from news API.''
          else Inl e)"

subsection \<open>fetch_stocks\<close>

text \<open>
  What fetch_stocks does to the outside, in order: \<open>time.sleep(n)\<close> and
  \<open>requests.get(url, timeout=t)\<close>. The reply to the request of loop index \<open>i\<close> is
  \<open>http i url t\<close>.
\<close>

datatype event = Sleep nat | HttpGet string nat

record run =
  events :: "event list"
  reports :: "string list"

definition stock_url :: "string \<Rightarrow> string \<Rightarrow> string" where
  "stock_url symbol api_key =
     ''https://www.alphavantage.co/query?function=GLOBAL_QUOTE&symbol='' @ symbol
       @ ''&apikey='' @ api_key"

text \<open>The two literals of the \<open>emoji\<close> expression, as the bytes main.py holds.\<close>

definition emoji_up :: string where
  "emoji_up = [CHR 0xE2, CHR 0x80, CHR 0x9A, CHR 0xC3, CHR 0xB1, CHR 0xE2, CHR 0x89, CHR 0xA4]"

definition emoji_down :: string where
  "emoji_down = [CHR 0xE2, CHR 0x80, CHR 0x9A, CHR 0xC3, CHR 0xB1, CHR 0xC2, CHR 0xBA]"

text \<open>The parsing and formatting of a quote that is present (lines 92 to 98).\<close>

definition quote_line :: "'f float_ops \<Rightarrow> string \<Rightarrow> 'f json \<Rightarrow> exn + string" where
  "quote_line ops symbol quote =
     then_do (subscript quote ''05. price'') (\<lambda>p.
     then_do (py_float ops p) (\<lambda>price.
     then_do (subscript quote ''10. change percent'') (\<lambda>c.
     then_do (replace_percent c) (\<lambda>change_percent_str.
     then_do (py_float ops change_percent_str) (\<lambda>change_percent.
       Inr (symbol @ '': $'' @ format_f ops 2 price @ '' ('' @ format_f ops 2 change_percent
            @ ''%) '' @ (if float_gt0 ops change_percent then emoji_up else emoji_down)))))))"

text \<open>
  The try block of one iteration: the line it appends to \<open>reports\<close>, and whether it
  leaves the loop by \<open>break\<close>.
\<close>

definition stock_try :: "'f float_ops \<Rightarrow> 'f http \<Rightarrow> string \<Rightarrow> string \<Rightarrow> exn + string \<times> bool" where
  "stock_try ops http api_url symbol =
     then_do (get_json http api_url) (\<lambda>data.
     then_do (str_in ''Note'' data) (\<lambda>has_note.
     then_do (if has_note then then_do (subscript data ''Note'') (str_in ''rate limit'')
              else Inr False) (\<lambda>limited.
       if limited then Inr (symbol @ '': API Rate Limit Hit - Waiting for next run.'', True)
       else
         then_do (dict_get data ''Global Quote'') (\<lambda>quote.
           if \<not> truthy ops quote
           then Inr (symbol @ '': Error fetching data (likely invalid symbol).'', False)
           else then_do (quote_line ops symbol quote) (\<lambda>line. Inr (line, False))))))"

text \<open>The try block with its three handlers; any other exception leaves fetch_stocks.\<close>

definition stock_step :: "'f float_ops \<Rightarrow> 'f http \<Rightarrow> string \<Rightarrow> string \<Rightarrow> exn + string \<times> bool" where
  "stock_step ops http api_url symbol =
     (case stock_try ops http api_url symbol of
        Inr r \<Rightarrow> Inr r
      | Inl e \<Rightarrow>
          if is_Timeout e
          then Inr (symbol @ '': Stock data currently unavailable (API timeout).'', False)
          else if is_RequestException e
          then Inr (symbol @ '': Network or Request failed: '' @ exn_str e, False)
          else if e = KeyError \<or> e = ValueError
          then Inr (symbol @ '': Error parsing data (Check API key/symbol).'', False)
          else Inl e)"

text \<open>
  The for loop over \<open>enumerate(symbols)\<close>, from index \<open>i\<close> on. The result is the
  state when the loop is left, and the exception that left it, if one did.
\<close>

fun stock_loop ::
  "'f float_ops \<Rightarrow> (nat \<Rightarrow> 'f http) \<Rightarrow> string \<Rightarrow> nat \<Rightarrow> string list \<Rightarrow> run \<Rightarrow> run \<times> exn option" where
  "stock_loop ops http api_key i [] st = (st, None)"
| "stock_loop ops http api_key i (symbol # rest) st =
     (let st1 = (if i > 0 then st\<lparr>events := events st @ [Sleep 13]\<rparr> else st);
          api_url = stock_url symbol api_key;
          st2 = st1\<lparr>events := events st1 @ [HttpGet api_url 15]\<rparr>
      in case stock_step ops (http i) api_url symbol of
           Inl e \<Rightarrow> (st2, Some e)
         | Inr (line, brk) \<Rightarrow>
             (let st3 = st2\<lparr>reports := reports st2 @ [line]\<rparr>
              in if brk then (st3, None)
                 else stock_loop ops http api_key (Suc i) rest st3))"

definition market_unavailable :: string where
  "market_unavailable =
     ''Market data is temporarily unavailable due to an external API issue. Please check back later.''"

text \<open>The statements after the loop (lines 109 to 114).\<close>

definition stock_result :: "string list \<Rightarrow> string list \<Rightarrow> string" where
  "stock_result reps symbols =
     (let stock_output = join ''\<newline>'' reps
      in if list_all (str_contains ''unavailable'') reps \<and> length reps = length symbols
         then market_unavailable
         else stock_output)"

text \<open>fetch_stocks: the events it caused, and what it returned or raised.\<close>

definition fetch_stocks ::
  "'f float_ops \<Rightarrow> (nat \<Rightarrow> 'f http) \<Rightarrow> string list \<Rightarrow> string \<Rightarrow> event list \<times> (exn + string)" where
  "fetch_stocks ops http symbols api_key =
     (case stock_loop ops http api_key 0 symbols \<lparr>events = [], reports = []\<rparr> of
        (st, Some e) \<Rightarrow> (events st, Inl e)
      | (st, None) \<Rightarrow> (events st, Inr (stock_result (reports st) symbols)))"

subsection \<open>fetch_fun_fact\<close>

definition fun_fact_url :: string where
  "fun_fact_url = ''http://numbersapi.com/random/trivia''"

definition fetch_fun_fact :: "'f http \<Rightarrow> exn + string" where
  "fetch_fun_fact http =
     (case then_do (http fun_fact_url 15) (\<lambda>response.
           then_do (raise_for_status response) (\<lambda>u. Inr (text_body response))) of
        Inr body \<Rightarrow> Inr body
      | Inl e \<Rightarrow>
          if is_RequestException e
          then Inr ''A fun fact is not available right now. Try again later!''
          else Inl e)"

section \<open>The renderer\<close>

text \<open>
  build_html_digest reads the clock: \<open>timestamp\<close> is the value of
  \<open>datetime.now().strftime('%Y-%m-%d %H:%M:%S')\<close> at the call. The rest is the
  f-string of lines 141 to 187, line by line.
\<close>

definition build_html_digest :: "string \<Rightarrow> string \<Rightarrow> string \<Rightarrow> string \<Rightarrow> string \<Rightarrow> string" where
  \<open>build_html_digest timestamp weather_report news_report stock_report fun_fact =
     ''\<newline>'' @
     ''    <!DOCTYPE html>\<newline>'' @
     ''    <html lang="en">\<newline>'' @
     ''    <head>\<newline>'' @
     ''        <meta charset="UTF-8">\<newline>'' @
     ''        <meta name="viewport" content="width=device-width, initial-scale=1.0">\<newline>'' @
     ''        <title>Your Automated Daily Digest</title>\<newline>'' @
     ''        <style>\<newline>'' @
     ''            body { font-family: Arial, sans-serif; margin: 20px; color: #333; background-color: #f4f4f4; }\<newline>'' @
     ''            .container { max-width: 600px; margin: 0 auto; background: #fff; padding: 20px; border-radius: 8px; box-shadow: 0 4px 8px rgba(0,0,0,0.1); }\<newline>'' @
     ''            h1 { color: #0056b3; border-bottom: 2px solid #eee; padding-bottom: 10px; }\<newline>'' @
     ''            h2 { color: #555; margin-top: 20px; border-bottom: 1px solid #ddd; padding-bottom: 5px; }\<newline>'' @
     ''            p, ul { line-height: 1.6; margin-bottom: 15px; }\<newline>'' @
     ''            .weather { background: #e0f7fa; padding: 10px; border-radius: 4px; }\<newline>'' @
     ''            .stock { background: #f0fff4; padding: 10px; border-radius: 4px; }\<newline>'' @
     ''        </style>\<newline>'' @
     ''    </head>\<newline>'' @
     ''    <body>\<newline>'' @
     ''        <div class="container">\<newline>'' @
     ''            <h1>Automated Daily Digest</h1>\<newline>'' @
     ''            <p style="color: #777;">Generated on '' @
     timestamp @
     ''</p>\<newline>'' @
     ''\<newline>'' @
     ''            <h2>'' @
     [CHR 0xE2, CHR 0x80, CHR 0x9A, CHR 0xC3, CHR 0xB2, CHR 0xC3, CHR 0x84, CHR 0xC3, CHR 0x94, CHR 0xE2, CHR 0x88, CHR 0x8F, CHR 0xC3, CHR 0xA8] @
     '' Local Weather</h2>\<newline>'' @
     ''            <div class="weather">\<newline>'' @
     ''                <p>'' @
     weather_report @
     ''</p>\<newline>'' @
     ''            </div>\<newline>'' @
     ''            \<newline>'' @
     ''            <h2>'' @
     [CHR 0xEF, CHR 0xA3, CHR 0xBF, CHR 0xC3, CHR 0xBC, CHR 0xC3, CHR 0xAC, CHR 0xE2, CHR 0x88, CHR 0x9E] @
     '' Top Tech News</h2>\<newline>'' @
     ''            <p style="white-space: pre-wrap;">'' @
     news_report @
     ''</p>\<newline>'' @
     ''\<newline>'' @
     ''            <h2>'' @
     [CHR 0xEF, CHR 0xA3, CHR 0xBF, CHR 0xC3, CHR 0xBC, CHR 0xC3, CHR 0xAC, CHR 0xC3, CHR 0xA0] @
     '' Stock Market Snapshot</h2>\<newline>'' @
     ''            <div class="stock">\<newline>'' @
     ''                <p style="white-space: pre-wrap;">'' @
     stock_report @
     ''</p>\<newline>'' @
     ''            </div>\<newline>'' @
     ''\<newline>'' @
     ''            <h2>'' @
     [CHR 0xEF, CHR 0xA3, CHR 0xBF, CHR 0xC3, CHR 0xBC, CHR 0xC3, CHR 0x9F, CHR 0xE2, CHR 0x80, CHR 0xA0] @
     '' Daily Fun Fact</h2>\<newline>'' @
     ''            <div style="background: #fff3e0; padding: 10px; border-radius: 4px; border-left: 5px solid #ff9800;">\<newline>'' @
     ''                <p><strong>Did you know?</strong> '' @
     fun_fact @
     ''</p>\<newline>'' @
     ''            </div>\<newline>'' @
     ''            \<newline>'' @
     ''            <p style="text-align: center; font-size: 0.8em; color: #aaa; margin-top: 30px;">\<newline>'' @
     ''                Automated by a Python Script via GitHub Actions\<newline>'' @
     ''            </p>\<newline>'' @
     ''        </div>\<newline>'' @
     ''    </body>\<newline>'' @
     ''    </html>\<newline>'' @
     ''    ''\<close>

section \<open>A decimal instance of the float operations\<close>

text \<open>
  The general theorems hold for any \<open>float_ops\<close>. To run the fetchers on concrete
  payloads, \<open>dec_ops\<close> gives the operations on plain decimal literals: a sign, digits
  and a fraction part, either of the two digit runs possibly empty but not both, which
  is how the quote provider writes prices and percentages (\<open>189.8400\<close>,
  \<open>-0.5207\<close>). \<open>Dec neg n k\<close> is the value \<open>n / 10 ^ k\<close> with its sign; the
  sign is kept apart, as Python's float has a negative zero. Formatting rounds half to
  even.

  These values are exact decimals, not binary64, so the instance differs from CPython
  in four places, none of which a theorem below evaluates:
  \<^item> a literal whose rounding to \<open>d\<close> places is a tie in decimal but not in binary:
    \<open>0.015\<close> prints \<open>0.02\<close> here and \<open>0.01\<close> in CPython;
  \<^item> a literal too small for binary64 is zero in CPython and positive here;
  \<^item> an int beyond \<open>2 ^ 53\<close> is kept exact here and rounded in CPython;
  \<^item> exponent forms, \<open>inf\<close>, \<open>nan\<close>, and literals with surrounding blanks or
    digit-group underscores are accepted by \<open>float()\<close>; \<open>dec_of_str\<close> gives None.
\<close>

datatype dec = Dec bool nat nat

definition is_digit :: "char \<Rightarrow> bool" where
  "is_digit c = (c \<in> set ''0123456789'')"

definition digit_val :: "char \<Rightarrow> nat" where
  "digit_val c = length (takeWhile (\<lambda>d. d \<noteq> c) ''0123456789'')"

definition nat_of_digits :: "string \<Rightarrow> nat" where
  "nat_of_digits s = foldl (\<lambda>a c. 10 * a + digit_val c) 0 s"

fun dec_of_parts :: "bool \<Rightarrow> string \<Rightarrow> string \<Rightarrow> dec option" where
  "dec_of_parts neg ip [] = (if ip = [] then None else Some (Dec neg (nat_of_digits ip) 0))"
| "dec_of_parts neg ip (c # fp) =
     (if c = CHR ''.'' \<and> list_all is_digit fp \<and> \<not> (ip = [] \<and> fp = [])
      then Some (Dec neg (nat_of_digits (ip @ fp)) (length fp))
      else None)"

definition dec_of_unsigned :: "bool \<Rightarrow> string \<Rightarrow> dec option" where
  "dec_of_unsigned neg body =
     dec_of_parts neg (takeWhile is_digit body) (dropWhile is_digit body)"

fun dec_of_str :: "string \<Rightarrow> dec option" where
  "dec_of_str [] = None"
| "dec_of_str (c # cs) =
     (if c = CHR ''-'' then dec_of_unsigned True cs
      else if c = CHR ''+'' then dec_of_unsigned False cs
      else dec_of_unsigned False (c # cs))"

fun nat_digits :: "nat \<Rightarrow> string" where
  "nat_digits n =
     (if n < 10 then [''0123456789'' ! n]
      else nat_digits (n div 10) @ [''0123456789'' ! (n mod 10)])"

declare nat_digits.simps [simp del]

text \<open>\<open>n / m\<close> rounded to an integer, half to even.\<close>

definition round_div :: "nat \<Rightarrow> nat \<Rightarrow> nat" where
  "round_div n m =
     (if m < 2 * (n mod m) \<or> (2 * (n mod m) = m \<and> odd (n div m)) then n div m + 1
      else n div m)"

definition fixed_digits :: "nat \<Rightarrow> nat \<Rightarrow> string" where
  "fixed_digits d v =
     nat_digits (v div 10 ^ d)
     @ (if d = 0 then []
        else ''.'' @ replicate (d - length (nat_digits (v mod 10 ^ d))) (CHR ''0'')
             @ nat_digits (v mod 10 ^ d))"

fun dec_format :: "nat \<Rightarrow> dec \<Rightarrow> string" where
  "dec_format d (Dec neg n k) =
     (if neg then ''-'' else []) @ fixed_digits d (round_div (n * 10 ^ d) (10 ^ k))"

fun dec_gt0 :: "dec \<Rightarrow> bool" where
  "dec_gt0 (Dec neg n k) = (\<not> neg \<and> 0 < n)"

fun dec_bool :: "dec \<Rightarrow> bool" where
  "dec_bool (Dec neg n k) = (n \<noteq> 0)"

text \<open>
  The conversion of an int: OverflowError from \<open>2 ^ 1024 - 2 ^ 970\<close> on, the first
  magnitude that rounds to \<open>2 ^ 1024\<close>.
\<close>

definition dec_of_int :: "int \<Rightarrow> dec option" where
  "dec_of_int i =
     (if \<bar>i\<bar> < 2 ^ 1024 - 2 ^ 970 then Some (Dec (i < 0) (nat \<bar>i\<bar>) 0) else None)"

definition dec_ops :: "dec float_ops" where
  "dec_ops =
     \<lparr>float_of_str = dec_of_str,
      float_of_int = dec_of_int,
      format_f = dec_format,
      float_gt0 = dec_gt0,
      float_bool = dec_bool\<rparr>"

section \<open>The expected trace of the stock loop\<close>

text \<open>
  Written from the specification, not from the loop: one request per symbol, in order,
  with a pause of 13 seconds before every request but the one of index 0.
\<close>

fun request_events :: "string \<Rightarrow> nat \<Rightarrow> string list \<Rightarrow> event list" where
  "request_events api_key i [] = []"
| "request_events api_key i (symbol # rest) =
     (if i > 0 then [Sleep 13] else []) @ HttpGet (stock_url symbol api_key) 15
       # request_events api_key (Suc i) rest"

section \<open>Reading a page\<close>

text \<open>
  Reading a page back: \<open>element_text opener closer page\<close> is the text that stands
  between the first occurrence of \<open>opener\<close> in the page and the first occurrence of
  \<open>closer\<close> after it, the content of the element that \<open>opener\<close> opens.
\<close>

fun starts_with :: "string \<Rightarrow> string \<Rightarrow> bool"
  and starts_with_if :: "bool \<Rightarrow> string \<Rightarrow> string \<Rightarrow> bool" where
  "starts_with [] s = True"
| "starts_with (p # ps) [] = False"
| "starts_with (p # ps) (c # cs) = starts_with_if (p = c) ps cs"
| "starts_with_if True ps cs = starts_with ps cs"
| "starts_with_if False ps cs = False"

fun text_after :: "string \<Rightarrow> string \<Rightarrow> string option"
  and text_after_if :: "bool \<Rightarrow> string \<Rightarrow> char \<Rightarrow> string \<Rightarrow> string option" where
  "text_after pat [] = (if pat = [] then Some [] else None)"
| "text_after pat (c # cs) = text_after_if (starts_with pat (c # cs)) pat c cs"
| "text_after_if True pat c cs = Some (drop (length pat) (c # cs))"
| "text_after_if False pat c cs = text_after pat cs"

fun text_before :: "string \<Rightarrow> string \<Rightarrow> string option"
  and text_before_if :: "bool \<Rightarrow> string \<Rightarrow> char \<Rightarrow> string \<Rightarrow> string option" where
  "text_before pat [] = (if pat = [] then Some [] else None)"
| "text_before pat (c # cs) = text_before_if (starts_with pat (c # cs)) pat c cs"
| "text_before_if True pat c cs = Some []"
| "text_before_if False pat c cs = map_option ((#) c) (text_before pat cs)"


section \<open>Evaluating the decimal instance\<close>

lemmas dec_eval =
  dec_of_unsigned_def is_digit_def nat_of_digits_def digit_val_def round_div_def
  fixed_digits_def nat_digits.simps dec_ops_def

section \<open>Properties of one loop iteration\<close>

lemma then_do_eq_Inr: "then_do m f = Inr y \<longleftrightarrow> (\<exists>x. m = Inr x \<and> f x = Inr y)"
  by (cases m) simp_all

lemma quote_line_prefix:
  "quote_line ops symbol quote = Inr line \<Longrightarrow> \<exists>rest. line = symbol @ '': '' @ rest"
  by (auto simp: quote_line_def then_do_eq_Inr)

lemma stock_try_prefix:
  "stock_try ops h url symbol = Inr (line, brk) \<Longrightarrow> \<exists>rest. line = symbol @ '': '' @ rest"
  by (auto simp: stock_try_def then_do_eq_Inr split: if_splits dest: quote_line_prefix)

lemma stock_step_prefix:
  "stock_step ops h url symbol = Inr (line, brk) \<Longrightarrow> \<exists>rest. line = symbol @ '': '' @ rest"
  by (auto simp: stock_step_def split: sum.splits if_splits dest: stock_try_prefix)

lemma stock_step_request_failed:
  assumes "h url 15 = Inl e" and "is_RequestException e"
  shows "stock_step ops h url symbol =
           Inr (if is_Timeout e then symbol @ '': Stock data currently unavailable (API timeout).''
                else symbol @ '': Network or Request failed: '' @ exn_str e, False)"
  using assms by (simp add: stock_step_def stock_try_def get_json_def)

section \<open>Properties of the stock loop\<close>

lemma str_contains_iff: "str_contains n h \<longleftrightarrow> (\<exists>p s. h = p @ n @ s)"
proof (induction h)
  case Nil
  then show ?case by auto
next
  case (Cons c cs)
  show ?case
  proof (cases "take (length n) (c # cs) = n")
    case True
    then have "c # cs = [] @ n @ drop (length n) (c # cs)"
      by (metis append_Nil append_take_drop_id)
    then show ?thesis using True by (metis str_contains.simps(2))
  next
    case False
    have "(\<exists>p s. c # cs = p @ n @ s) \<longleftrightarrow> (\<exists>p s. cs = p @ n @ s)"
    proof
      assume "\<exists>p s. c # cs = p @ n @ s"
      then obtain p s where ps: "c # cs = p @ n @ s" by blast
      show "\<exists>p s. cs = p @ n @ s"
      proof (cases p)
        case Nil
        with ps have "take (length n) (c # cs) = n" by simp
        with False show ?thesis by simp
      next
        case (Cons a p')
        with ps have "cs = p' @ n @ s" by simp
        then show ?thesis by blast
      qed
    next
      assume "\<exists>p s. cs = p @ n @ s"
      then obtain p s where "cs = p @ n @ s" by blast
      then have "c # cs = (c # p) @ n @ s" by simp
      then show "\<exists>p s. c # cs = p @ n @ s" by blast
    qed
    with False Cons show ?thesis by simp
  qed
qed

lemma request_events_later:
  "request_events key (Suc i) syms = concat (map (\<lambda>s. [Sleep 13, HttpGet (stock_url s key) 15]) syms)"
  by (induction syms arbitrary: i) simp_all

lemma request_events_first:
  "request_events key 0 (s # syms) =
     HttpGet (stock_url s key) 15 # concat (map (\<lambda>s. [Sleep 13, HttpGet (stock_url s key) 15]) syms)"
  by (simp add: request_events_later)


lemma stock_loop_steps:
  assumes "length lines = length pre"
    and "\<forall>j<length pre. stock_step ops (http (i + j)) (stock_url (pre ! j) key) (pre ! j)
           = Inr (lines ! j, False)"
  shows "stock_loop ops http key i (pre @ rest) st =
         stock_loop ops http key (i + length pre) rest
           (st\<lparr>events := events st @ request_events key i pre, reports := reports st @ lines\<rparr>)"
  using assms
proof (induction pre arbitrary: i st lines)
  case Nil
  then show ?case by simp
next
  case (Cons p ps)
  then obtain l ls where lines: "lines = l # ls" by (cases lines) auto
  from Cons.prems(2) have step: "stock_step ops (http i) (stock_url p key) p = Inr (l, False)"
    using lines by fastforce
  have later: "\<forall>j<length ps. stock_step ops (http (Suc i + j)) (stock_url (ps ! j) key) (ps ! j)
                 = Inr (ls ! j, False)"
  proof (intro allI impI)
    fix j assume "j < length ps"
    then have "Suc j < length (p # ps)" by simp
    with Cons.prems(2) have "stock_step ops (http (i + Suc j)) (stock_url ((p # ps) ! Suc j) key)
        ((p # ps) ! Suc j) = Inr (lines ! Suc j, False)" by blast
    then show "stock_step ops (http (Suc i + j)) (stock_url (ps ! j) key) (ps ! j) = Inr (ls ! j, False)"
      using lines by simp
  qed
  have len: "length ls = length ps" using Cons.prems(1) lines by simp
  show ?case
    using step Cons.IH [OF len later] lines by (simp add: Let_def)
qed

lemma stock_loop_events:
  "\<exists>n\<le>length syms. (syms \<noteq> [] \<longrightarrow> 0 < n) \<and>
     events (fst (stock_loop ops http key i syms st)) = events st @ request_events key i (take n syms)"
proof (induction syms arbitrary: i st)
  case Nil
  then show ?case by simp
next
  case (Cons s ss)
  let ?st2 = "st\<lparr>events := events st @ (if i > 0 then [Sleep 13] else []) @ [HttpGet (stock_url s key) 15]\<rparr>"
  show ?case
  proof (cases "stock_step ops (http i) (stock_url s key) s")
    case (Inl e)
    then have "events (fst (stock_loop ops http key i (s # ss) st))
        = events st @ request_events key i (take 1 (s # ss))"
      by (simp add: Let_def)
    then show ?thesis by (intro exI [of _ 1]) simp
  next
    case (Inr r)
    obtain line brk where r: "r = (line, brk)" by (cases r)
    show ?thesis
    proof (cases brk)
      case True
      with Inr r have "events (fst (stock_loop ops http key i (s # ss) st))
          = events st @ request_events key i (take 1 (s # ss))"
        by (simp add: Let_def)
      then show ?thesis by (intro exI [of _ 1]) simp
    next
      case False
      let ?st3 = "?st2\<lparr>reports := reports ?st2 @ [line]\<rparr>"
      from Cons [of "Suc i" ?st3] obtain m where m: "m \<le> length ss"
        "events (fst (stock_loop ops http key (Suc i) ss ?st3))
           = events ?st3 @ request_events key (Suc i) (take m ss)" by blast
      with Inr r False have "events (fst (stock_loop ops http key i (s # ss) st))
          = events st @ request_events key i (take (Suc m) (s # ss))"
        by (auto simp: Let_def split: if_splits)
      with m(1) show ?thesis by (intro exI [of _ "Suc m"]) simp
    qed
  qed
qed

lemma stock_loop_reports:
  "stock_loop ops http key i syms st = (st', r) \<Longrightarrow>
   \<exists>new. reports st' = reports st @ new \<and> length new \<le> length syms \<and>
     (\<forall>k<length new. \<exists>rest. new ! k = syms ! k @ '': '' @ rest)"
proof (induction syms arbitrary: i st)
  case Nil
  then show ?case by simp
next
  case (Cons s ss)
  let ?st2 = "st\<lparr>events := events st @ (if i > 0 then [Sleep 13] else []) @ [HttpGet (stock_url s key) 15]\<rparr>"
  show ?case
  proof (cases "stock_step ops (http i) (stock_url s key) s")
    case (Inl e)
    with Cons.prems have "reports st' = reports st @ []" by (auto simp: Let_def)
    then show ?thesis by (intro exI [of _ "[]"]) simp
  next
    case (Inr res)
    obtain line brk where res: "res = (line, brk)" by (cases res)
    from Inr res stock_step_prefix obtain rest where line: "line = s @ '': '' @ rest" by blast
    show ?thesis
    proof (cases brk)
      case True
      with Inr res Cons.prems have "reports st' = reports st @ [line]" by (auto simp: Let_def)
      with line show ?thesis by (intro exI [of _ "[line]"]) simp
    next
      case False
      let ?st3 = "?st2\<lparr>reports := reports ?st2 @ [line]\<rparr>"
      from Inr res False Cons.prems have "stock_loop ops http key (Suc i) ss ?st3 = (st', r)"
        by (auto simp: Let_def split: if_splits)
      from Cons.IH [OF this] obtain new where new: "reports st' = reports ?st3 @ new"
        "length new \<le> length ss" "\<forall>k<length new. \<exists>rest. new ! k = ss ! k @ '': '' @ rest"
        by blast
      have "\<forall>k<length (line # new). \<exists>rest. (line # new) ! k = (s # ss) ! k @ '': '' @ rest"
        using line new(3) by (auto simp: nth_Cons split: nat.splits)
      with new(1,2) show ?thesis by (intro exI [of _ "line # new"]) simp
    qed
  qed
qed

lemma fetch_stocks_events:
  "fst (fetch_stocks ops http symbols key)
     = events (fst (stock_loop ops http key 0 symbols \<lparr>events = [], reports = []\<rparr>))"
  by (simp add: fetch_stocks_def split: prod.splits option.splits)

lemma fetch_stocks_all_failed:
  assumes "\<forall>i<length symbols. http i (stock_url (symbols ! i) key) 15 = Inl (errs i)
             \<and> is_RequestException (errs i)"
  shows "fetch_stocks ops http symbols key =
           (request_events key 0 symbols,
            Inr (stock_result
                   (map (\<lambda>i. if is_Timeout (errs i)
                              then symbols ! i @ '': Stock data currently unavailable (API timeout).''
                              else symbols ! i @ '': Network or Request failed: '' @ exn_str (errs i))
                        [0..<length symbols])
                   symbols))"
proof -
  let ?lines = "map (\<lambda>i. if is_Timeout (errs i)
                              then symbols ! i @ '': Stock data currently unavailable (API timeout).''
                              else symbols ! i @ '': Network or Request failed: '' @ exn_str (errs i))
                        [0..<length symbols]"
  have "\<forall>j<length symbols. stock_step ops (http (0 + j)) (stock_url (symbols ! j) key) (symbols ! j)
          = Inr (?lines ! j, False)"
    using assms by (simp add: stock_step_request_failed)
  from stock_loop_steps [of ?lines symbols ops http 0 key "[]" "\<lparr>events = [], reports = []\<rparr>", OF _ this]
  show ?thesis by (simp add: fetch_stocks_def)
qed


section \<open>Properties of reading a page\<close>

lemma starts_with_iff: "starts_with pat s \<longleftrightarrow> take (length pat) s = pat"
proof (induction pat arbitrary: s)
  case Nil
  show ?case by simp
next
  case (Cons p ps)
  show ?case
  proof (cases s)
    case Nil
    then show ?thesis by simp
  next
    case (Cons c cs)
    then show ?thesis using Cons.IH [of cs] by (cases "p = c") auto
  qed
qed



section \<open>Claims\<close>

text \<open>
  C9. Called with an empty symbol list, fetch_stocks issues no request and returns the
  generic market-data-unavailable message, not the empty string: no report was recorded,
  so every recorded report contains "unavailable", and zero reports equal zero symbols.
\<close>

theorem fetch_stocks_empty_symbols:
  "fetch_stocks ops http [] api_key =
     ([], Inr ''Market data is temporarily unavailable due to an external API issue. Please check back later.'')"
  by (simp add: fetch_stocks_def stock_result_def market_unavailable_def)




text \<open>
  C4, as amended. build_html_digest is a function of its four report strings and of
  the clock reading it formats into the page: with the same four strings, two calls
  give the same page exactly when they format the same timestamp. Apart from reading
  the clock it has no effect.
\<close>

theorem build_html_digest_function_of_clock_and_reports:
  "build_html_digest t1 weather_report news_report stock_report fun_fact
     = build_html_digest t2 weather_report news_report stock_report fun_fact
   \<longleftrightarrow> t1 = t2"
  by (simp add: build_html_digest_def)

text \<open>
  C4 as stated fails: two calls with the same four strings, one second apart, give
  different pages.
\<close>

theorem build_html_digest_clock_counterexample:
  "build_html_digest ''2024-01-01 08:00:00'' ''Sunny'' ''- A'' ''AAPL: $1.00 (0.10%)'' ''7 is prime.''
     \<noteq> build_html_digest ''2024-01-01 08:00:01'' ''Sunny'' ''- A'' ''AAPL: $1.00 (0.10%)'' ''7 is prime.''"
  by (simp add: build_html_digest_def)

text \<open>
  C10. When the news request succeeds and the decoded body has an empty list under
  \<open>articles\<close>, fetch_news returns the empty string, not one of its two fallback
  messages.
\<close>

theorem fetch_news_no_articles:
  assumes "get_json http (news_url topic api_key) = Inr data"
    and "subscript data ''articles'' = Inr (JArr [])"
  shows "fetch_news repr http topic api_key = Inr []"
  using assms by (simp add: fetch_news_def news_lines_def)

theorem fetch_news_no_articles_witness:
  "fetch_news (\<lambda>v. [])
     (\<lambda>url t. Inr \<lparr>status_code = 200, status_msg = [],
        json_body = Inr (JObj [(''status'', JStr ''ok''), (''totalResults'', JInt 0),
                               (''articles'', JArr [])] :: unit json),
        text_body = []\<rparr>)
     ''technology'' ''k'' = Inr []"
  by (rule fetch_news_no_articles
        [where data = "JObj [(''status'', JStr ''ok''), (''totalResults'', JInt 0),
                             (''articles'', JArr [])]"])
     (simp_all add: get_json_def raise_for_status_def)

text \<open>
  C5. The claim asks for the fallback string on every malformed body. fetch_weather
  has a handler for KeyError only: a status-200 body whose \<open>weather\<close> list is empty
  raises IndexError out of fetch_weather, and one whose \<open>main\<close> is a string raises
  TypeError.
\<close>

theorem fetch_weather_malformed_body_raises:
  "fetch_weather ops repr
     (\<lambda>url t. Inr \<lparr>status_code = 200, status_msg = [],
        json_body = Inr (JObj [(''main'', JObj [(''temp'', JInt 70)]), (''weather'', JArr []),
                               (''name'', JStr ''San Jose''),
                               (''sys'', JObj [(''country'', JStr ''US'')])]),
        text_body = []\<rparr>)
     ''San Jose,US'' ''k'' = Inl IndexError
   \<and> fetch_weather ops repr
     (\<lambda>url t. Inr \<lparr>status_code = 200, status_msg = [],
        json_body = Inr (JObj [(''main'', JStr ''warm''),
                               (''weather'', JArr [JObj [(''description'', JStr ''clear sky'')]]),
                               (''name'', JStr ''San Jose''),
                               (''sys'', JObj [(''country'', JStr ''US'')])]),
        text_body = []\<rparr>)
     ''San Jose,US'' ''k'' = Inl TypeError"
  by (simp add: fetch_weather_def weather_line_def get_json_def raise_for_status_def)

text \<open>
  C3, as amended. For every quote whose price and percent change parse, the line is
  \<open>SYMBOL: $price (change%) indicator\<close>, both numbers with two decimals; the
  indicator tells a positive percent change from one that is not positive: a change of
  exactly zero gets the same indicator as a negative change.
\<close>

theorem quote_line_format:
  assumes "subscript quote ''05. price'' = Inr p" and "py_float ops p = Inr price"
    and "subscript quote ''10. change percent'' = Inr (JStr c)"
    and "float_of_str ops (filter (\<lambda>ch. ch \<noteq> CHR ''%'') c) = Some change_percent"
  shows "quote_line ops symbol quote =
           Inr (symbol @ '': $'' @ format_f ops 2 price @ '' ('' @ format_f ops 2 change_percent
                @ ''%) '' @ (if float_gt0 ops change_percent then emoji_up else emoji_down))
         \<and> emoji_up \<noteq> emoji_down"
  using assms by (simp add: quote_line_def emoji_up_def emoji_down_def)

theorem quote_line_format_witness:
  "quote_line dec_ops ''AAPL''
     (JObj [(''01. symbol'', JStr ''AAPL''), (''05. price'', JStr ''189.8400''),
            (''10. change percent'', JStr ''-0.5207%'')])
   = Inr (''AAPL: $189.84 (-0.52%) '' @ emoji_down)"
  using quote_line_format [of "JObj [(''01. symbol'', JStr ''AAPL''), (''05. price'', JStr ''189.8400''),
            (''10. change percent'', JStr ''-0.5207%'')]" "JStr ''189.8400''" dec_ops "Dec False 1898400 4"
            "''-0.5207%''" "Dec True 5207 4" "''AAPL''"]
  by (simp add: dec_eval)

text \<open>
  C3 as stated fails: a percent change of \<open>0.0000%\<close> gets the indicator of the
  negative change, not the one of the positive change.
\<close>

theorem quote_line_zero_change_counterexample:
  "quote_line dec_ops ''AAPL''
     (JObj [(''05. price'', JStr ''189.8400''), (''10. change percent'', JStr ''0.0000%'')])
     = Inr (''AAPL: $189.84 (0.00%) '' @ emoji_down)
   \<and> quote_line dec_ops ''AAPL''
     (JObj [(''05. price'', JStr ''189.8400''), (''10. change percent'', JStr ''-0.5207%'')])
     = Inr (''AAPL: $189.84 (-0.52%) '' @ emoji_down)
   \<and> quote_line dec_ops ''AAPL''
     (JObj [(''05. price'', JStr ''189.8400''), (''10. change percent'', JStr ''1.2500%'')])
     = Inr (''AAPL: $189.84 (1.25%) '' @ emoji_up)
   \<and> emoji_up \<noteq> emoji_down"
  by (simp add: quote_line_def dec_eval emoji_up_def emoji_down_def)

text \<open>
  C1. When the loop of fetch_stocks ends without an exception leaving it: if every
  recorded report contains "unavailable" and there are as many reports as symbols, the
  result is the single generic message; otherwise it is the reports joined by
  newlines. The reports are in request order: the k-th report is the line of the k-th
  symbol. In particular, when every request times out, as for AAPL and GOOGL both
  timing out, the result is the one generic message.
\<close>

theorem fetch_stocks_collapse_or_join:
  "(stock_loop ops http api_key 0 symbols \<lparr>events = [], reports = []\<rparr> = (st, None) \<longrightarrow>
      snd (fetch_stocks ops http symbols api_key) =
        Inr (if (\<forall>r\<in>set (reports st). \<exists>p s. r = p @ ''unavailable'' @ s)
                \<and> length (reports st) = length symbols
             then market_unavailable
             else join ''\<newline>'' (reports st))
      \<and> length (reports st) \<le> length symbols
      \<and> (\<forall>k<length (reports st). \<exists>rest. reports st ! k = symbols ! k @ '': '' @ rest))
   \<and> ((\<forall>i<length symbols. \<exists>m. http i (stock_url (symbols ! i) api_key) 15 = Inl (Timeout m)) \<longrightarrow>
      snd (fetch_stocks ops http symbols api_key) = Inr market_unavailable)"
proof (intro conjI impI)
  assume loop: "stock_loop ops http api_key 0 symbols \<lparr>events = [], reports = []\<rparr> = (st, None)"
  show "snd (fetch_stocks ops http symbols api_key) =
        Inr (if (\<forall>r\<in>set (reports st). \<exists>p s. r = p @ ''unavailable'' @ s)
                \<and> length (reports st) = length symbols
             then market_unavailable
             else join ''\<newline>'' (reports st))"
    using loop by (simp add: fetch_stocks_def stock_result_def list_all_iff str_contains_iff)
  from stock_loop_reports [OF loop]
  show "length (reports st) \<le> length symbols"
    and "\<forall>k<length (reports st). \<exists>rest. reports st ! k = symbols ! k @ '': '' @ rest"
    by auto
next
  assume "\<forall>i<length symbols. \<exists>m. http i (stock_url (symbols ! i) api_key) 15 = Inl (Timeout m)"
  then have "\<forall>i<length symbols. \<exists>e. http i (stock_url (symbols ! i) api_key) 15 = Inl e \<and> is_Timeout e"
    by fastforce
  then obtain errs where errs: "\<forall>i<length symbols.
      http i (stock_url (symbols ! i) api_key) 15 = Inl (errs i) \<and> is_Timeout (errs i)"
    by metis
  have req: "is_RequestException e" if "is_Timeout e" for e
    using that by (cases e) simp_all
  have "\<forall>i<length symbols. http i (stock_url (symbols ! i) api_key) 15 = Inl (errs i)
             \<and> is_RequestException (errs i)"
    using errs req by blast
  note failed = fetch_stocks_all_failed [where http = http and symbols = symbols and key = api_key
      and errs = errs and ops = ops, OF this]
  have lines: "map (\<lambda>i. if is_Timeout (errs i)
                   then symbols ! i @ '': Stock data currently unavailable (API timeout).''
                   else symbols ! i @ '': Network or Request failed: '' @ exn_str (errs i))
                 [0..<length symbols]
      = map (\<lambda>i. symbols ! i @ '': Stock data currently unavailable (API timeout).'')
          [0..<length symbols]"
    by (rule map_cong) (use errs in auto)
  have "snd (fetch_stocks ops http symbols api_key) =
          Inr (stock_result (map (\<lambda>i. symbols ! i @ '': Stock data currently unavailable (API timeout).'')
                 [0..<length symbols]) symbols)"
    unfolding failed lines by simp
  moreover have "str_contains ''unavailable'' (s @ '': Stock data currently unavailable (API timeout).'')" for s
    unfolding str_contains_iff
    by (intro exI [of _ "s @ '': Stock data currently ''"] exI [of _ "'' (API timeout).''"]) simp
  ultimately show "snd (fetch_stocks ops http symbols api_key) = Inr market_unavailable"
    by (simp add: stock_result_def list_all_iff)
qed

theorem fetch_stocks_collapse_or_join_witness:
  "snd (fetch_stocks dec_ops (\<lambda>i url t. Inl (Timeout ''Read timed out.'')) [''AAPL'', ''GOOGL''] ''k'')
     = Inr ''Market data is temporarily unavailable due to an external API issue. Please check back later.''
   \<and> snd (fetch_stocks dec_ops
        (\<lambda>i url t. Inr \<lparr>status_code = 200, status_msg = [],
           json_body = Inr (if i = 0
             then JObj [(''Global Quote'', JObj [(''01. symbol'', JStr ''AAPL''),
                    (''05. price'', JStr ''189.8400''), (''10. change percent'', JStr ''-0.5207%'')])]
             else JObj [(''Global Quote'', JObj [])]),
           text_body = []\<rparr>)
        [''AAPL'', ''BAD''] ''k'')
     = Inr (''AAPL: $189.84 (-0.52%) '' @ emoji_down
            @ ''\<newline>BAD: Error fetching data (likely invalid symbol).'')"
proof -
  let ?http = "\<lambda>(i::nat) (url::string) (t::nat).
    Inr \<lparr>status_code = 200, status_msg = [],
           json_body = Inr (if i = 0
             then JObj [(''Global Quote'', JObj [(''01. symbol'', JStr ''AAPL''),
                    (''05. price'', JStr ''189.8400''), (''10. change percent'', JStr ''-0.5207%'')])]
             else JObj [(''Global Quote'', JObj [])]),
           text_body = []\<rparr> :: exn + dec response"
  let ?st = "\<lparr>events = [HttpGet (stock_url ''AAPL'' ''k'') 15, Sleep 13, HttpGet (stock_url ''BAD'' ''k'') 15],
              reports = [''AAPL: $189.84 (-0.52%) '' @ emoji_down,
                         ''BAD: Error fetching data (likely invalid symbol).'']\<rparr>"
  have loop: "stock_loop dec_ops ?http ''k'' 0 [''AAPL'', ''BAD''] \<lparr>events = [], reports = []\<rparr>
      = (?st, None)"
    by (simp add: stock_step_def stock_try_def get_json_def raise_for_status_def quote_line_def
        dec_eval Let_def)
  have "\<not> (\<exists>p s. ''BAD: Error fetching data (likely invalid symbol).'' = p @ ''unavailable'' @ s)"
    unfolding str_contains_iff [symmetric] by simp
  with fetch_stocks_collapse_or_join [of dec_ops ?http "''k''" "[''AAPL'', ''BAD'']" ?st,
      THEN conjunct1, rule_format, OF loop, THEN conjunct1]
  have second: "snd (fetch_stocks dec_ops ?http [''AAPL'', ''BAD''] ''k'')
      = Inr (''AAPL: $189.84 (-0.52%) '' @ emoji_down
            @ ''\<newline>BAD: Error fetching data (likely invalid symbol).'')"
    by simp
  have first: "snd (fetch_stocks dec_ops (\<lambda>i url t. Inl (Timeout ''Read timed out.'')) [''AAPL'', ''GOOGL''] ''k'')
     = Inr market_unavailable"
    by (rule fetch_stocks_collapse_or_join [THEN conjunct2, rule_format]) simp
  from first second show ?thesis by (simp add: market_unavailable_def)
qed

text \<open>
  C6. For every nonempty symbol list, whatever the replies are, the events of
  fetch_stocks are the request for the first symbol, with no pause before it, followed
  for each later symbol it reaches by one pause of 13 seconds and then that symbol's
  request: a pause stands exactly before the 2nd and every later request.
\<close>

theorem fetch_stocks_delay_before_later_requests:
  assumes "symbols \<noteq> []"
  shows "\<exists>n. 0 < n \<and> n \<le> length symbols \<and>
           fst (fetch_stocks ops http symbols api_key) =
             HttpGet (stock_url (hd symbols) api_key) 15
             # concat (map (\<lambda>s. [Sleep 13, HttpGet (stock_url s api_key) 15]) (tl (take n symbols)))"
proof -
  from stock_loop_events [of symbols ops http api_key 0 "\<lparr>events = [], reports = []\<rparr>"] assms
  obtain n where n: "n \<le> length symbols" "0 < n"
    "fst (fetch_stocks ops http symbols api_key) = request_events api_key 0 (take n symbols)"
    by (auto simp: fetch_stocks_events)
  from assms n(2) obtain s ss where "take n symbols = s # ss" "s = hd symbols"
    by (cases symbols; cases n) auto
  with n show ?thesis by (intro exI [of _ n]) (simp add: request_events_later)
qed

theorem fetch_stocks_delay_before_later_requests_witness:
  "fst (fetch_stocks dec_ops (\<lambda>i url t. Inl (Timeout ''Read timed out.'')) [''AAPL'', ''GOOGL''] ''k'')
     = [HttpGet (stock_url ''AAPL'' ''k'') 15, Sleep 13, HttpGet (stock_url ''GOOGL'' ''k'') 15]
   \<and> (\<exists>n. 0 < n \<and> n \<le> length [''AAPL'', ''GOOGL''] \<and>
         fst (fetch_stocks dec_ops (\<lambda>i url t. Inl (Timeout ''Read timed out.'')) [''AAPL'', ''GOOGL''] ''k'') =
           HttpGet (stock_url (hd [''AAPL'', ''GOOGL'']) ''k'') 15
           # concat (map (\<lambda>s. [Sleep 13, HttpGet (stock_url s ''k'') 15]) (tl (take n [''AAPL'', ''GOOGL'']))))"
proof
  show "fst (fetch_stocks dec_ops (\<lambda>i url t. Inl (Timeout ''Read timed out.'')) [''AAPL'', ''GOOGL''] ''k'')
     = [HttpGet (stock_url ''AAPL'' ''k'') 15, Sleep 13, HttpGet (stock_url ''GOOGL'' ''k'') 15]"
    by (simp add: fetch_stocks_def stock_step_def stock_try_def get_json_def Let_def)
  show "\<exists>n. 0 < n \<and> n \<le> length [''AAPL'', ''GOOGL''] \<and>
         fst (fetch_stocks dec_ops (\<lambda>i url t. Inl (Timeout ''Read timed out.'')) [''AAPL'', ''GOOGL''] ''k'') =
           HttpGet (stock_url (hd [''AAPL'', ''GOOGL'']) ''k'') 15
           # concat (map (\<lambda>s. [Sleep 13, HttpGet (stock_url s ''k'') 15]) (tl (take n [''AAPL'', ''GOOGL''])))"
    by (rule fetch_stocks_delay_before_later_requests) simp
qed




text \<open>
  C7. When the HTTP call raises a timeout or a connection error, fetch_weather,
  fetch_news and fetch_fun_fact return their fallback strings; one iteration of
  fetch_stocks records the per-symbol failure line and goes on; and when every request
  of fetch_stocks fails so, it returns the result built from these lines. None of them
  raises.
\<close>

theorem fetchers_absorb_network_errors:
  assumes "\<exists>m. e = Timeout m \<or> e = ConnectionError m"
  shows "(http (weather_url location key) 15 = Inl e \<longrightarrow>
            fetch_weather ops repr http location key
              = Inr (''Weather data for '' @ location @ '' is temporarily unavailable.''))
       \<and> (http (news_url topic key) 15 = Inl e \<longrightarrow>
            fetch_news repr http topic key = Inr ''Top news headlines are temporarily unavailable.'')
       \<and> (http fun_fact_url 15 = Inl e \<longrightarrow>
            fetch_fun_fact http = Inr ''A fun fact is not available right now. Try again later!'')
       \<and> (http (stock_url symbol key) 15 = Inl e \<longrightarrow>
            stock_step ops http (stock_url symbol key) symbol
              = Inr (if is_Timeout e
                     then symbol @ '': Stock data currently unavailable (API timeout).''
                     else symbol @ '': Network or Request failed: '' @ exn_str e, False))
       \<and> ((\<forall>i<length symbols. shttp i (stock_url (symbols ! i) key) 15 = Inl (errs i)
              \<and> (\<exists>m. errs i = Timeout m \<or> errs i = ConnectionError m)) \<longrightarrow>
            snd (fetch_stocks ops shttp symbols key)
              = Inr (stock_result
                   (map (\<lambda>i. if is_Timeout (errs i)
                              then symbols ! i @ '': Stock data currently unavailable (API timeout).''
                              else symbols ! i @ '': Network or Request failed: '' @ exn_str (errs i))
                        [0..<length symbols])
                   symbols))"
proof -
  have req: "is_RequestException x" if "\<exists>m. x = Timeout m \<or> x = ConnectionError m" for x
    using that by auto
  have e: "is_RequestException e" using assms by (rule req)
  have weather: "http (weather_url location key) 15 = Inl e \<longrightarrow>
            fetch_weather ops repr http location key
              = Inr (''Weather data for '' @ location @ '' is temporarily unavailable.'')"
    using e by (simp add: fetch_weather_def get_json_def)
  have news: "http (news_url topic key) 15 = Inl e \<longrightarrow>
            fetch_news repr http topic key = Inr ''Top news headlines are temporarily unavailable.''"
    using e by (simp add: fetch_news_def get_json_def)
  have fact: "http fun_fact_url 15 = Inl e \<longrightarrow>
            fetch_fun_fact http = Inr ''A fun fact is not available right now. Try again later!''"
    using e by (simp add: fetch_fun_fact_def)
  have step: "http (stock_url symbol key) 15 = Inl e \<longrightarrow>
            stock_step ops http (stock_url symbol key) symbol
              = Inr (if is_Timeout e
                     then symbol @ '': Stock data currently unavailable (API timeout).''
                     else symbol @ '': Network or Request failed: '' @ exn_str e, False)"
    using e stock_step_request_failed [of http "stock_url symbol key" e ops symbol] by blast
  have stocks: "(\<forall>i<length symbols. shttp i (stock_url (symbols ! i) key) 15 = Inl (errs i)
              \<and> (\<exists>m. errs i = Timeout m \<or> errs i = ConnectionError m)) \<longrightarrow>
            snd (fetch_stocks ops shttp symbols key)
              = Inr (stock_result
                   (map (\<lambda>i. if is_Timeout (errs i)
                              then symbols ! i @ '': Stock data currently unavailable (API timeout).''
                              else symbols ! i @ '': Network or Request failed: '' @ exn_str (errs i))
                        [0..<length symbols])
                   symbols)"
  proof
    assume a: "\<forall>i<length symbols. shttp i (stock_url (symbols ! i) key) 15 = Inl (errs i)
              \<and> (\<exists>m. errs i = Timeout m \<or> errs i = ConnectionError m)"
    have "\<forall>i<length symbols. shttp i (stock_url (symbols ! i) key) 15 = Inl (errs i)
             \<and> is_RequestException (errs i)"
      using a req by blast
    from fetch_stocks_all_failed [where http = shttp and symbols = symbols and key = key
        and errs = errs and ops = ops, OF this]
    show "snd (fetch_stocks ops shttp symbols key)
              = Inr (stock_result
                   (map (\<lambda>i. if is_Timeout (errs i)
                              then symbols ! i @ '': Stock data currently unavailable (API timeout).''
                              else symbols ! i @ '': Network or Request failed: '' @ exn_str (errs i))
                        [0..<length symbols])
                   symbols)"
      by simp
  qed
  from weather news fact step stocks show ?thesis by blast
qed

theorem fetchers_absorb_network_errors_witness:
  "fetch_weather dec_ops (\<lambda>v. []) (\<lambda>url t. Inl (Timeout ''Read timed out.'')) ''San Jose,US'' ''k''
     = Inr ''Weather data for San Jose,US is temporarily unavailable.''
   \<and> fetch_news (\<lambda>v. []) (\<lambda>url t. Inl (Timeout ''Read timed out.'') :: exn + dec response)
       ''technology'' ''k''
     = Inr ''Top news headlines are temporarily unavailable.''
   \<and> fetch_fun_fact (\<lambda>url t. Inl (Timeout ''Read timed out.'') :: exn + dec response)
     = Inr ''A fun fact is not available right now. Try again later!''
   \<and> snd (fetch_stocks dec_ops
        (\<lambda>i url t. Inl (if i = 0 then Timeout ''Read timed out.''
                         else ConnectionError ''Connection refused''))
        [''AAPL'', ''GOOGL''] ''k'')
     = Inr (''AAPL: Stock data currently unavailable (API timeout).''
            @ ''\<newline>GOOGL: Network or Request failed: Connection refused'')"
  using fetchers_absorb_network_errors
    [where e = "Timeout ''Read timed out.''"
       and http = "\<lambda>url t. Inl (Timeout ''Read timed out.'') :: exn + dec response"
       and location = "''San Jose,US''" and key = "''k''" and ops = dec_ops
       and repr = "\<lambda>v. []" and topic = "''technology''" and symbol = "''AAPL''"
       and symbols = "[''AAPL'', ''GOOGL'']"
       and shttp = "\<lambda>i url t. Inl (if i = 0 then Timeout ''Read timed out.''
                                     else ConnectionError ''Connection refused'')"
       and errs = "\<lambda>i. if i = 0 then Timeout ''Read timed out.''
                         else ConnectionError ''Connection refused''"]
  by (simp add: stock_result_def less_Suc_eq upt_rec [of 0] upt_rec [of 1] upt_rec [of 2])

end
